theory Spec2Isabelle
  imports Complex_Main "HOL-Library.Char_ord" "HOL-Library.List_Lexorder"
begin

section \<open>Python values and strings\<close>

text \<open>
  The values the job framework handles: \<open>None\<close>, booleans, unbounded integers, floats
  and text. A float is represented by the rational number it denotes, so that
  \<open>round\<close> is exact decimal rounding. Python's \<open>bool\<close> is a subclass of
  \<open>int\<close>, which \<open>isinstance\<close> below respects. Text is ASCII text, one
  \<open>char\<close> per character.
\<close>

datatype pyval = PyNone | PyBool bool | PyInt int | PyFloat rat | PyStr string

text \<open>Every failure of the source is \<open>raise Exception(message)\<close>.\<close>

datatype pyexc = PyException string

definition dq :: char where
  "dq = CHR 0x22"

definition sq :: char where
  "sq = CHR 0x27"

text \<open>\<open>sep.join(xs)\<close> on a list of strings.\<close>

fun py_join :: "string \<Rightarrow> string list \<Rightarrow> string" where
  "py_join sep [] = []"
| "py_join sep [x] = x"
| "py_join sep (x # y # ys) = x @ sep @ py_join sep (y # ys)"

text \<open>\<open>s.replace(a, b)\<close> for single characters \<open>a\<close> and \<open>b\<close>.\<close>

definition py_replace :: "char \<Rightarrow> char \<Rightarrow> string \<Rightarrow> string" where
  "py_replace a b s = map (\<lambda>c. if c = a then b else c) s"

text \<open>
  \<open>s.upper()\<close> on ASCII text: the letters a to z move to A to Z. Python folds
  letters outside ASCII too, so what is proved of a string that validation rejects is
  stated for ASCII strings (\<open>list_all is_ascii\<close>).
\<close>

definition is_ascii :: "char \<Rightarrow> bool" where
  "is_ascii c = ((of_char c :: nat) < 128)"

definition upper_char :: "char \<Rightarrow> char" where
  "upper_char c =
     (let n = (of_char c :: nat) in if 97 \<le> n \<and> n \<le> 122 then char_of (n - 32) else c)"

definition upper :: "string \<Rightarrow> string" where
  "upper s = map upper_char s"

text \<open>
  \<open>'{}'.format(v)\<close> and \<open>str(v)\<close> in the SQL generator. There a scalar is
  given by the text \<open>str\<close> returns for it (\<open>Some\<close> of that text), and Python's
  \<open>None\<close> is \<open>None\<close>, which formats as the text \<open>None\<close>.
\<close>

type_synonym scalar = "string option"

definition fmt :: "scalar \<Rightarrow> string" where
  "fmt v = (case v of None \<Rightarrow> ''None'' | Some s \<Rightarrow> s)"

section \<open>library/database.py: class Database\<close>

text \<open>
  A condition is absent, a raw string, or a dict from column to a scalar or a list of
  strings. A dict is an association list in insertion order.
\<close>

datatype condval = Single scalar | Multi "string list"

datatype condition = NoCondition | RawCondition string | DictCondition "(string \<times> condval) list"

datatype columns =
  NoColumns | DictColumns "(string \<times> scalar) list" | OneColumn string | ListColumns "string list"

definition ALL_CHAR :: string where
  "ALL_CHAR = ''*''"

definition CONDITION_TEMPLATE :: "string \<Rightarrow> string" where
  "CONDITION_TEMPLATE c = '' WHERE '' @ c"

definition CONDITION_list :: "string \<Rightarrow> string \<Rightarrow> string" where
  "CONDITION_list column vs = column @ '' in ('' @ vs @ '')''"

definition CONDITION_single :: "string \<Rightarrow> string \<Rightarrow> string" where
  "CONDITION_single column v = column @ '' = '' @ [dq] @ v @ [dq]"

definition CONDITION_join :: string where
  "CONDITION_join = '' AND ''"

definition VALUES_join :: string where
  "VALUES_join = '',''"

definition SORTBY_SENTINEL :: string where
  "SORTBY_SENTINEL = ''ZZZZZZZZZZZZZZ''"

definition sortby_suffix :: "string \<Rightarrow> string \<Rightarrow> string" where
  "sortby_suffix c sortby =
     c @ '' ORDER BY CASE WHEN '' @ sortby @ '' IS null THEN '' @ [sq] @ SORTBY_SENTINEL @ [sq]
       @ '' else '' @ sortby @ '' END DESC''"

text \<open>The loop of \<open>_parse_where_dict\<close>, appending to \<open>where_list\<close>.\<close>

fun parse_where_loop :: "(string \<times> condval) list \<Rightarrow> string list \<Rightarrow> string list" where
  "parse_where_loop [] where_list = where_list"
| "parse_where_loop ((column, Multi v) # rest) where_list =
     parse_where_loop rest (where_list @ [CONDITION_list column (py_join '','' v)])"
| "parse_where_loop ((column, Single v) # rest) where_list =
     parse_where_loop rest (where_list @ [CONDITION_single column (fmt v)])"

definition parse_where_dict :: "(string \<times> condval) list \<Rightarrow> string" where
  "parse_where_dict where_dict =
     (let where_list = parse_where_loop where_dict []
      in if where_list \<noteq> [] then py_join CONDITION_join where_list else [])"

definition generate_condition :: "condition \<Rightarrow> string" where
  "generate_condition c =
     (case c of
        NoCondition \<Rightarrow> []
      | RawCondition s \<Rightarrow> CONDITION_TEMPLATE s
      | DictCondition d \<Rightarrow> CONDITION_TEMPLATE (parse_where_dict d))"

definition clean_string :: "scalar \<Rightarrow> string" where
  "clean_string dirty_string =
     (let dirty = (case dirty_string of None \<Rightarrow> ''null'' | Some s \<Rightarrow> s);
          clean = py_replace dq sq dirty
      in [dq] @ clean @ [dq])"

definition generate_columns :: "columns \<Rightarrow> string" where
  "generate_columns vs =
     (case vs of
        NoColumns \<Rightarrow> ALL_CHAR
      | DictColumns d \<Rightarrow>
          py_join VALUES_join (map (\<lambda>(c, v). [dq] @ c @ [dq] @ ''='' @ clean_string v) d)
      | OneColumn v \<Rightarrow> py_join VALUES_join [v]
      | ListColumns l \<Rightarrow> py_join VALUES_join l)"

text \<open>
  \<open>select\<close>, \<open>insert\<close>, \<open>update\<close> and \<open>delete\<close> with \<open>return_sql=True\<close>:
  the statement that \<open>execute_sql\<close> hands to SQLite.
\<close>

definition Database_select ::
  "string \<Rightarrow> columns \<Rightarrow> condition \<Rightarrow> string option \<Rightarrow> bool \<Rightarrow> string" where
  "Database_select table cols cond sortby is_distinct =
     (let condition_string = generate_condition cond;
          condition_string' =
            (case sortby of None \<Rightarrow> condition_string
             | Some s \<Rightarrow> sortby_suffix condition_string s)
      in (if is_distinct then ''SELECT DISTINCT '' else ''SELECT '')
           @ generate_columns cols @ '' FROM '' @ table @ condition_string' @ '';'')"

definition Database_insert :: "string \<Rightarrow> (string \<times> scalar) list \<Rightarrow> string" where
  "Database_insert table vs =
     (let cols = py_join VALUES_join (map fst vs);
          vals = py_join VALUES_join
                   (map (\<lambda>v. case v of None \<Rightarrow> ''null'' | Some s \<Rightarrow> [dq] @ s @ [dq]) (map snd vs))
      in ''INSERT INTO '' @ table @ '' ('' @ cols @ '') VALUES ('' @ vals @ '');'')"

definition Database_update :: "string \<Rightarrow> (string \<times> scalar) list \<Rightarrow> condition \<Rightarrow> string" where
  "Database_update table values_dict cond =
     ''UPDATE '' @ table @ '' SET '' @ generate_columns (DictColumns values_dict)
       @ generate_condition cond @ '';''"

definition Database_delete :: "string \<Rightarrow> condition \<Rightarrow> string" where
  "Database_delete table cond = ''DELETE FROM '' @ table @ generate_condition cond"

text \<open>
  What the \<open>ORDER BY\<close> clause of \<open>sortby_suffix\<close> asks of SQLite: each row is
  compared by the value of the \<open>CASE\<close> expression, which is the sentinel where the
  column is null and the column's text otherwise; texts compare byte by byte; \<open>DESC\<close>
  returns the greatest first. SQL promises no order among rows with equal keys; here they
  keep the order in which they were inserted.
\<close>

definition sortby_key :: "scalar \<Rightarrow> string" where
  "sortby_key v = (case v of None \<Rightarrow> SORTBY_SENTINEL | Some s \<Rightarrow> s)"

definition order_by_desc :: "('r \<Rightarrow> scalar) \<Rightarrow> 'r list \<Rightarrow> 'r list" where
  "order_by_desc col rows = rev (sort_key (\<lambda>r. sortby_key (col r)) (rev rows))"

section \<open>Numbers\<close>

text \<open>
  \<open>round(x, ndigits)\<close> rounds half to even. On an \<open>int\<close> (and a \<open>bool\<close>, which
  is one) it returns an \<open>int\<close>, on a \<open>float\<close> a \<open>float\<close>, and on anything else it
  raises \<open>TypeError\<close> (a built-in exception is kept by the name of its class).
  The rounding is that of the rational number: it is Python's wherever the double is not
  within its own error of a decimal tie, as for 3.14159 to 2 places. A decimal such as
  0.015 or 2.675 is no double; Python rounds the double nearest to it, which lies off the
  tie.
\<close>

definition round_half_even :: "rat \<Rightarrow> int" where
  "round_half_even x =
     (let f = \<lfloor>x\<rfloor>; d = x - of_int f
      in if d < 1 / 2 then f else if 1 / 2 < d then f + 1 else if even f then f else f + 1)"

definition round_float :: "rat \<Rightarrow> int \<Rightarrow> rat" where
  "round_float x n =
     (if 0 \<le> n then of_int (round_half_even (x * 10 ^ nat n)) / 10 ^ nat n
      else of_int (round_half_even (x / 10 ^ nat (- n))) * 10 ^ nat (- n))"

definition round_int :: "int \<Rightarrow> int \<Rightarrow> int" where
  "round_int i n =
     (if 0 \<le> n then i else round_half_even (of_int i / 10 ^ nat (- n)) * 10 ^ nat (- n))"

definition py_round :: "pyval \<Rightarrow> int \<Rightarrow> pyexc + pyval" where
  "py_round v n =
     (case v of
        PyFloat x \<Rightarrow> Inr (PyFloat (round_float x n))
      | PyInt i \<Rightarrow> Inr (PyInt (round_int i n))
      | PyBool b \<Rightarrow> Inr (PyInt (round_int (if b then 1 else 0) n))
      | _ \<Rightarrow> Inl (PyException ''TypeError''))"

definition isinstance_float :: "pyval \<Rightarrow> bool" where
  "isinstance_float v = (case v of PyFloat _ \<Rightarrow> True | _ \<Rightarrow> False)"

definition isinstance_int :: "pyval \<Rightarrow> bool" where
  "isinstance_int v = (case v of PyInt _ \<Rightarrow> True | PyBool _ \<Rightarrow> True | _ \<Rightarrow> False)"

text \<open>The number a \<open>float\<close> or \<open>int\<close> instance compares as.\<close>

definition number_of :: "pyval \<Rightarrow> rat" where
  "number_of v =
     (case v of PyFloat x \<Rightarrow> x | PyInt i \<Rightarrow> of_int i | PyBool b \<Rightarrow> (if b then 1 else 0) | _ \<Rightarrow> 0)"

section \<open>library/database.py: class DAO, and library/data.py\<close>

text \<open>
  A DAO hands each write to the Database as a table, a dict of values and a condition.
  The state of the store is the list of the writes executed so far, each by its
  arguments; the text rendered for a write is \<open>Database_insert\<close> and
  \<open>Database_update\<close> above. What a read returns, what the clock shows and what
  \<open>unique_id\<close> returns are inputs of the operations.
\<close>

type_synonym pydict = "(string \<times> pyval) list"

type_synonym row = "pyval list"

datatype statement = Insert string pydict | Update string pydict "pydict option"

definition STANDARD_ID :: string where
  "STANDARD_ID = ''id''"

definition JobDAO_TABLE :: string where
  "JobDAO_TABLE = ''Jobs''"

definition JobDAO_SCHEMA :: "string list" where
  "JobDAO_SCHEMA = [STANDARD_ID, ''datetime'', ''name'', ''status'', ''seconds_elapsed'']"

definition SignalDAO_TABLE :: string where
  "SignalDAO_TABLE = ''Signals''"

definition SignalDAO_SCHEMA :: "string list" where
  "SignalDAO_SCHEMA = [STANDARD_ID, ''job_id'', ''datetime'', ''name'', ''action'', ''confidence'']"

definition StoredValuesDAO_TABLE :: string where
  "StoredValuesDAO_TABLE = ''StoredValues''"

definition StoredValuesDAO_SCHEMA :: "string list" where
  "StoredValuesDAO_SCHEMA = [STANDARD_ID, ''job_id'', ''datetime'', ''key'', ''value'']"

text \<open>\<open>d[k] = v\<close>: a key already present keeps its place.\<close>

fun dict_set :: "(string \<times> 'v) list \<Rightarrow> string \<Rightarrow> 'v \<Rightarrow> (string \<times> 'v) list" where
  "dict_set [] k v = [(k, v)]"
| "dict_set ((k', v') # d) k v = (if k' = k then (k, v) # d else (k', v') # dict_set d k v)"

fun list_index :: "string list \<Rightarrow> string \<Rightarrow> nat" where
  "list_index [] x = 0"
| "list_index (y # ys) x = (if y = x then 0 else Suc (list_index ys x))"

definition get_column_index :: "string list \<Rightarrow> string \<Rightarrow> nat option" where
  "get_column_index schema column_name =
     (if column_name \<in> set schema then Some (list_index schema column_name) else None)"

text \<open>\<open>row[i]\<close>, where \<open>i\<close> may be \<open>None\<close> and may be out of range.\<close>

definition py_getitem :: "row \<Rightarrow> nat option \<Rightarrow> pyexc + pyval" where
  "py_getitem r i =
     (case i of
        None \<Rightarrow> Inl (PyException ''TypeError'')
      | Some n \<Rightarrow> if n < length r then Inr (r ! n) else Inl (PyException ''IndexError''))"

text \<open>\<open>DAO.new\<close> with the identifier \<open>unique_id\<close> returned; it returns that identifier.\<close>

definition DAO_new :: "string \<Rightarrow> string list \<Rightarrow> string \<Rightarrow> pydict \<Rightarrow> statement" where
  "DAO_new table schema uid data_dict =
     (let d = dict_set data_dict STANDARD_ID (PyStr uid);
          missing_columns = filter (\<lambda>column. column \<notin> set (map fst d)) schema
      in Insert table (foldl (\<lambda>d column. dict_set d column PyNone) d missing_columns))"

definition DAO_update :: "string \<Rightarrow> pyval \<Rightarrow> pydict \<Rightarrow> statement" where
  "DAO_update table entry_id values_dict =
     Update table values_dict (if entry_id \<noteq> PyNone then Some [(STANDARD_ID, entry_id)] else None)"

section \<open>library/job.py: class Signal\<close>

record signal =
  signal_job_id :: string
  signal_previous_action :: pyval
  signal_name :: string
  signal_action :: pyval
  signal_confidence :: pyval

definition HOLD :: string where
  "HOLD = ''HOLD''"

definition SELL :: string where
  "SELL = ''SELL''"

definition BUY :: string where
  "BUY = ''BUY''"

text \<open>
  \<open>_load\<close>, given the rows its query
  \<open>read(None, where_condition={'name': name}, sortby='datetime')\<close> returned.
\<close>

definition Signal_load :: "row list \<Rightarrow> signal \<Rightarrow> pyexc + signal" where
  "Signal_load signal_rows s =
     (case signal_rows of
        [] \<Rightarrow> Inr s
      | latest_signal # _ \<Rightarrow>
          (case py_getitem latest_signal (get_column_index SignalDAO_SCHEMA ''action'') of
             Inl e \<Rightarrow> Inl e
           | Inr a \<Rightarrow>
               (case py_getitem latest_signal (get_column_index SignalDAO_SCHEMA ''confidence'') of
                  Inl e \<Rightarrow> Inl e
                | Inr c \<Rightarrow> Inr (s\<lparr>signal_action := a, signal_confidence := c\<rparr>))))"

definition Signal_init :: "row list \<Rightarrow> string \<Rightarrow> string \<Rightarrow> pyexc + signal" where
  "Signal_init signal_rows job_id name =
     Signal_load signal_rows
       \<lparr>signal_job_id = job_id, signal_previous_action = PyNone, signal_name = name,
        signal_action = PyNone, signal_confidence = PyNone\<rparr>"

text \<open>
  \<open>set\<close>, with the clock's reading \<open>ts\<close> already formatted and the identifier
  \<open>uid\<close> of the new row. The result is the exception raised, if any, with the Signal
  and the store as the call leaves them.
\<close>

definition Signal_set ::
  "string \<Rightarrow> string \<Rightarrow> pyval \<Rightarrow> pyval \<Rightarrow> signal \<times> statement list
     \<Rightarrow> pyexc option \<times> signal \<times> statement list" where
  "Signal_set ts uid act conf st =
     (let s = fst st; db = snd st
      in if act \<notin> set [PyStr HOLD, PyStr SELL, PyStr BUY]
         then (Some (PyException (''Signal status must be either '' @ [dq] @ ''hold'' @ [dq] @ '', '' @ [dq] @ ''sell''
                      @ [dq] @ '' or '' @ [dq] @ ''buy'' @ [dq] @ ''!'')), s, db)
         else if \<not> (isinstance_float conf \<or> isinstance_int conf)
                 \<or> (0 \<ge> number_of conf \<and> number_of conf \<ge> 1)
         then (Some (PyException ''Confidence must be a float (0-1)''), s, db)
         else (case py_round conf 2 of
                 Inl e \<Rightarrow> (Some e, s\<lparr>signal_previous_action := act, signal_action := act\<rparr>, db)
               | Inr c \<Rightarrow>
                   (let s' = s\<lparr>signal_previous_action := act, signal_action := act,
                               signal_confidence := c\<rparr>
                    in (None, s',
                        db @ [DAO_new SignalDAO_TABLE SignalDAO_SCHEMA uid
                                [(''job_id'', PyStr (signal_job_id s')),
                                 (''name'', PyStr (signal_name s')),
                                 (''datetime'', PyStr ts),
                                 (''action'', signal_action s'),
                                 (''confidence'', signal_confidence s')]]))))"

definition Signal_has_changed :: "signal \<Rightarrow> bool" where
  "Signal_has_changed s = (signal_previous_action s \<noteq> signal_action s)"

section \<open>library/job.py: class StoredValue\<close>

record stored_value =
  sv_round_dp :: "int option"
  sv_job_id :: string
  sv_key :: string
  sv_value :: pyval
  sv_loaded :: "(pyval \<times> pyval \<times> pyval) option"

text \<open>
  \<open>_load\<close> keeps the latest row's identifier, key and value in the attributes
  \<open>id\<close>, \<open>action\<close> and \<open>confidence\<close> (here \<open>sv_loaded\<close>), and leaves
  \<open>value\<close> alone.
\<close>

definition StoredValue_load :: "row list \<Rightarrow> stored_value \<Rightarrow> pyexc + stored_value" where
  "StoredValue_load value_rows sv =
     (case value_rows of
        [] \<Rightarrow> Inr sv
      | latest_value # _ \<Rightarrow>
          (case py_getitem latest_value (Some 0) of
             Inl e \<Rightarrow> Inl e
           | Inr i \<Rightarrow>
               (case py_getitem latest_value (get_column_index StoredValuesDAO_SCHEMA ''key'') of
                  Inl e \<Rightarrow> Inl e
                | Inr a \<Rightarrow>
                    (case py_getitem latest_value (get_column_index StoredValuesDAO_SCHEMA ''value'') of
                       Inl e \<Rightarrow> Inl e
                     | Inr c \<Rightarrow> Inr (sv\<lparr>sv_loaded := Some (i, a, c)\<rparr>)))))"

definition StoredValue_init ::
  "row list \<Rightarrow> string \<Rightarrow> string \<Rightarrow> int option \<Rightarrow> pyexc + stored_value" where
  "StoredValue_init value_rows job_id key round_dp =
     StoredValue_load value_rows
       \<lparr>sv_round_dp = round_dp, sv_job_id = job_id, sv_key = key, sv_value = PyNone,
        sv_loaded = None\<rparr>"

definition StoredValue_round :: "stored_value \<Rightarrow> pyval \<Rightarrow> pyexc + pyval" where
  "StoredValue_round sv number =
     (case sv_round_dp sv of
        None \<Rightarrow> Inr number
      | Some dp \<Rightarrow> if dp \<noteq> 0 then py_round number dp else Inr number)"

definition StoredValue_set ::
  "string \<Rightarrow> string \<Rightarrow> pyval \<Rightarrow> stored_value \<times> statement list
     \<Rightarrow> pyexc option \<times> stored_value \<times> statement list" where
  "StoredValue_set ts uid v st =
     (let sv = fst st; db = snd st
      in case (if isinstance_float v then StoredValue_round sv v else Inr v) of
           Inl e \<Rightarrow> (Some e, sv, db)
         | Inr r \<Rightarrow>
             (let sv' = sv\<lparr>sv_value := r\<rparr>
              in (None, sv',
                  db @ [DAO_new StoredValuesDAO_TABLE StoredValuesDAO_SCHEMA uid
                          [(''job_id'', PyStr (sv_job_id sv')),
                           (''datetime'', PyStr ts),
                           (''key'', PyStr (sv_key sv')),
                           (''value'', v)]])))"

section \<open>library/job.py: classes JobStatus, Emailer and Job\<close>

definition SUCCESS_CODE :: int where
  "SUCCESS_CODE = 0"

definition FAIL_CODE :: int where
  "FAIL_CODE = 1"

definition INITIATED :: string where
  "INITIATED = ''INITIATED''"

definition REQUESTING :: string where
  "REQUESTING = ''REQUESTING_DATA''"

definition CALCULATING :: string where
  "CALCULATING = ''CALCULATING''"

definition FAILED :: string where
  "FAILED = ''FAILED''"

definition SUCCESS :: string where
  "SUCCESS = ''SUCCESS''"

definition VALID :: "string list" where
  "VALID = [INITIATED, REQUESTING, CALCULATING, FAILED, SUCCESS]"

definition JobStatus_is_valid :: "string \<Rightarrow> pyexc + bool" where
  "JobStatus_is_valid status_string =
     (if upper status_string \<notin> set VALID then Inl (PyException ''{} is an invalid status!'')
      else Inr True)"

text \<open>
  The two calls the Job makes on its Emailer, by what they send: the recipient and the
  signal's name, or the recipient, the job's name and the error message.
\<close>

datatype notification = Signal_change string string | Job_failure string string string

record job =
  job_stored_values :: "(string \<times> stored_value) list"
  job_status :: pyval
  job_error :: "string option"
  job_name :: string
  job_email :: string
  job_run_datetime :: rat
  job_round_dp :: "int option"
  job_id :: string
  job_signal :: signal

text \<open>
  The Job with the store and the mail sent. \<open>job_run_datetime\<close> and the clock's
  reading \<open>now\<close> are in seconds; \<open>job_round_dp\<close> is
  \<open>variables.get('round_dp')\<close>, an integer when configured. Logging is left out.
\<close>

record world =
  w_job :: job
  w_db :: "statement list"
  w_outbox :: "notification list"

definition Job_set_status :: "rat \<Rightarrow> string \<Rightarrow> world \<Rightarrow> pyexc option \<times> world" where
  "Job_set_status now status w =
     (let w1 = w\<lparr>w_job := (w_job w)\<lparr>job_status := PyStr status\<rparr>\<rparr>
      in case JobStatus_is_valid status of
           Inl e \<Rightarrow> (Some e, w1)
         | Inr ok \<Rightarrow>
             if ok
             then (let seconds_elapsed = now - job_run_datetime (w_job w1)
                   in (None,
                       w1\<lparr>w_db := w_db w1 @
                            [DAO_update JobDAO_TABLE (PyStr (job_id (w_job w1)))
                               [(''status'', PyStr status),
                                (''seconds_elapsed'', PyFloat seconds_elapsed)]]\<rparr>))
             else (None, w1))"

text \<open>
  \<open>store_value\<close>; \<open>value_rows\<close> is what the query of \<open>StoredValue._load\<close>
  returns, should the key be new.
\<close>

definition Job_store_value ::
  "string \<Rightarrow> string \<Rightarrow> row list \<Rightarrow> string \<Rightarrow> pyval \<Rightarrow> world \<Rightarrow> pyexc option \<times> world" where
  "Job_store_value ts uid value_rows key v w =
     (let j = w_job w
      in case (case map_of (job_stored_values j) key of
                 None \<Rightarrow> StoredValue_init value_rows (job_id j) key (job_round_dp j)
               | Some sv \<Rightarrow> Inr sv) of
           Inl e \<Rightarrow> (Some e, w)
         | Inr sv \<Rightarrow>
             (case StoredValue_set ts uid v (sv, w_db w) of
                (r, sv', db') \<Rightarrow>
                  (r, w\<lparr>w_job := j\<lparr>job_stored_values :=
                                      dict_set (job_stored_values j) key sv'\<rparr>,
                         w_db := db'\<rparr>)))"

definition Job_read_value :: "string \<Rightarrow> world \<Rightarrow> pyexc + pyval" where
  "Job_read_value key w =
     (case map_of (job_stored_values (w_job w)) key of
        None \<Rightarrow> Inl (PyException (''No stored value with the key '' @ [dq] @ key @ [dq] @ '' exists!''))
      | Some sv \<Rightarrow> Inr (sv_value sv))"

definition Job_set_signal ::
  "string \<Rightarrow> string \<Rightarrow> pyval \<Rightarrow> pyval \<Rightarrow> world \<Rightarrow> pyexc option \<times> world" where
  "Job_set_signal ts uid act conf w =
     (case Signal_set ts uid act conf (job_signal (w_job w), w_db w) of
        (r, s', db') \<Rightarrow> (r, w\<lparr>w_job := (w_job w)\<lparr>job_signal := s'\<rparr>, w_db := db'\<rparr>))"

text \<open>
  \<open>do_work\<close>. The calculation function is any function of the world that returns or
  raises an \<open>Exception\<close>, leaving the world as it made it.
\<close>

definition Job_do_work :: "(world \<Rightarrow> pyexc option \<times> world) \<Rightarrow> world \<Rightarrow> world" where
  "Job_do_work calculation_function w =
     (case calculation_function (w\<lparr>w_job := (w_job w)\<lparr>job_error := None\<rparr>\<rparr>) of
        (None, w1) \<Rightarrow> w1
      | (Some (PyException msg), w1) \<Rightarrow> w1\<lparr>w_job := (w_job w1)\<lparr>job_error := Some msg\<rparr>\<rparr>)"

text \<open>\<open>if self.error:\<close> holds for a string that is not empty.\<close>

definition truthy :: "string option \<Rightarrow> bool" where
  "truthy e = (case e of None \<Rightarrow> False | Some s \<Rightarrow> s \<noteq> [])"

definition Job_finish_and_return_code :: "rat \<Rightarrow> bool \<Rightarrow> world \<Rightarrow> (pyexc + int) \<times> world" where
  "Job_finish_and_return_code now force_email w =
     (if truthy (job_error (w_job w))
      then (case Job_set_status now FAILED w of
              (Some e, w1) \<Rightarrow> (Inl e, w1)
            | (None, w1) \<Rightarrow>
                (Inr FAIL_CODE,
                 w1\<lparr>w_outbox := w_outbox w1 @
                      [Job_failure (job_email (w_job w1)) (job_name (w_job w1))
                         (case job_error (w_job w1) of None \<Rightarrow> ''None'' | Some s \<Rightarrow> s)]\<rparr>))
      else (case Job_set_status now SUCCESS w of
              (Some e, w1) \<Rightarrow> (Inl e, w1)
            | (None, w1) \<Rightarrow>
                if Signal_has_changed (job_signal (w_job w1)) \<or> force_email
                then (Inr SUCCESS_CODE,
                      w1\<lparr>w_outbox := w_outbox w1 @
                           [Signal_change (job_email (w_job w1)) (signal_name (job_signal (w_job w1)))]\<rparr>)
                else (Inr SUCCESS_CODE, w1)))"

section \<open>A job for the examples\<close>

text \<open>
  The Job named \<open>test\<close> as \<open>__init__\<close> leaves it: its row inserted, no earlier
  signal of its name in the store, status \<open>INITIATED\<close>, rounding precision 2, run
  timestamp 100 on the clock.
\<close>

definition test_signal :: signal where
  "test_signal =
     \<lparr>signal_job_id = ''j1'', signal_previous_action = PyNone, signal_name = ''test'',
      signal_action = PyNone, signal_confidence = PyNone\<rparr>"

definition test_job :: job where
  "test_job =
     \<lparr>job_stored_values = [], job_status = PyStr INITIATED, job_error = None,
      job_name = ''test'', job_email = ''ops@example.org'', job_run_datetime = 100,
      job_round_dp = Some 2, job_id = ''j1'', job_signal = test_signal\<rparr>"

definition test_world :: world where
  "test_world =
     \<lparr>w_job = test_job,
      w_db = [Insert ''Jobs''
                [(''datetime'', PyStr ''20210101120000''), (''name'', PyStr ''test''),
                 (''id'', PyStr ''j1''), (''status'', PyNone), (''seconds_elapsed'', PyNone)],
              Update ''Jobs'' [(''status'', PyStr INITIATED), (''seconds_elapsed'', PyFloat 0)]
                (Some [(''id'', PyStr ''j1'')])],
      w_outbox = []\<rparr>"

text \<open>A calculation function that raises \<open>Exception()\<close>, whose message is empty.\<close>

definition raises_without_message :: "world \<Rightarrow> pyexc option \<times> world" where
  "raises_without_message w = (Some (PyException []), w)"

text \<open>
  A StoredValue of that job with precision 2; three rows of a table by name and timestamp,
  one of them with no timestamp; and the two of them that have one.
\<close>

definition test_stored_value :: stored_value where
  "test_stored_value =
     \<lparr>sv_round_dp = Some 2, sv_job_id = ''j1'', sv_key = ''x'', sv_value = PyNone,
      sv_loaded = None\<rparr>"

definition three_rows :: "(string \<times> scalar) list" where
  "three_rows =
     [(''old'', Some ''20200101120000''), (''new'', Some ''20210101120000''), (''undated'', None)]"

definition two_rows :: "(string \<times> scalar) list" where
  "two_rows = [(''old'', Some ''20200101120000''), (''new'', Some ''20210101120000'')]"

section \<open>Properties of the SQL generator\<close>

lemma parse_where_loop_acc: "parse_where_loop d acc = acc @ parse_where_loop d []"
proof (induction d arbitrary: acc)
  case Nil
  show ?case by simp
next
  case (Cons e d)
  obtain c v where e: "e = (c, v)" by (cases e)
  show ?case
  proof (cases v)
    case (Single x)
    have "parse_where_loop (e # d) acc = (acc @ [CONDITION_single c (fmt x)]) @ parse_where_loop d []"
      using Cons.IH [of "acc @ [CONDITION_single c (fmt x)]"] by (simp add: e Single)
    moreover have "parse_where_loop (e # d) [] = [CONDITION_single c (fmt x)] @ parse_where_loop d []"
      using Cons.IH [of "[CONDITION_single c (fmt x)]"] by (simp add: e Single)
    ultimately show ?thesis by simp
  next
    case (Multi xs)
    have "parse_where_loop (e # d) acc = (acc @ [CONDITION_list c (py_join '','' xs)]) @ parse_where_loop d []"
      using Cons.IH [of "acc @ [CONDITION_list c (py_join '','' xs)]"] by (simp add: e Multi)
    moreover have "parse_where_loop (e # d) [] = [CONDITION_list c (py_join '','' xs)] @ parse_where_loop d []"
      using Cons.IH [of "[CONDITION_list c (py_join '','' xs)]"] by (simp add: e Multi)
    ultimately show ?thesis by simp
  qed
qed

lemma parse_where_loop_Cons:
  "parse_where_loop (e # d) [] = parse_where_loop [e] [] @ parse_where_loop d []"
proof -
  obtain c v where e: "e = (c, v)" by (cases e)
  show ?thesis
    by (cases v) (simp_all add: e parse_where_loop_acc [of d "[_]"])
qed

lemma parse_where_loop_length: "length (parse_where_loop d []) = length d"
proof (induction d)
  case Nil
  show ?case by simp
next
  case (Cons e d)
  obtain c v where e: "e = (c, v)" by (cases e)
  have "length (parse_where_loop [e] []) = 1"
    by (cases v) (simp_all add: e)
  then show ?case
    using Cons.IH by (simp add: parse_where_loop_Cons [of e d])
qed

lemma py_join_Cons: "ys \<noteq> [] \<Longrightarrow> py_join sep (x # ys) = x @ sep @ py_join sep ys"
  by (cases ys) simp_all

text \<open>
  C9. An absent condition gives no WHERE clause; a raw string follows \<open>WHERE\<close> as
  given; in a dict condition an entry with a list value is rendered as
  \<open>column in (v1,v2,...)\<close>, an entry with a scalar value as \<open>column = "value"\<close>,
  and the entries are joined by \<open>AND\<close> in the order of the dict.
\<close>

theorem generate_condition_grammar:
  "generate_condition NoCondition = []
   \<and> generate_condition (RawCondition s) = '' WHERE '' @ s
   \<and> generate_condition (DictCondition d) = '' WHERE '' @ parse_where_dict d
   \<and> parse_where_dict [] = []
   \<and> parse_where_dict [(c, Multi vs)] = c @ '' in ('' @ py_join '','' vs @ '')''
   \<and> parse_where_dict [(c, Single v)] = c @ '' = '' @ [dq] @ fmt v @ [dq]
   \<and> (rest \<noteq> [] \<longrightarrow>
        parse_where_dict (e # rest) = parse_where_dict [e] @ '' AND '' @ parse_where_dict rest)"
proof -
  have step: "parse_where_dict (e # rest) = parse_where_dict [e] @ '' AND '' @ parse_where_dict rest"
    if "rest \<noteq> []"
  proof -
    obtain x where one: "parse_where_loop [e] [] = [x]"
      using parse_where_loop_length [of "[e]"] by (cases "parse_where_loop [e] []") simp_all
    have ne: "parse_where_loop rest [] \<noteq> []"
      using parse_where_loop_length [of rest] that by (cases "parse_where_loop rest []") simp_all
    have "parse_where_loop (e # rest) [] = x # parse_where_loop rest []"
      using parse_where_loop_Cons [of e rest] one by simp
    then show ?thesis
      using ne one by (simp add: parse_where_dict_def py_join_Cons CONDITION_join_def)
  qed
  show ?thesis
    using step
    by (simp add: generate_condition_def CONDITION_TEMPLATE_def parse_where_dict_def
        CONDITION_list_def CONDITION_single_def)
qed

theorem generate_condition_grammar_witness:
  "generate_condition
     (DictCondition [(''name'', Single (Some ''doge'')), (''id'', Multi [''a'', ''b''])])
   = '' WHERE name = '' @ [dq] @ ''doge'' @ [dq] @ '' AND id in (a,b)''"
  using generate_condition_grammar
    [where d = "[(''name'', Single (Some ''doge'')), (''id'', Multi [''a'', ''b''])]"
       and e = "(''name'', Single (Some ''doge''))" and rest = "[(''id'', Multi [''a'', ''b''])]"
       and c = "''id''" and vs = "[''a'', ''b'']"]
    generate_condition_grammar [where c = "''name''" and v = "Some ''doge''"]
  by (simp add: fmt_def)

section \<open>Properties of Signal and StoredValue\<close>

lemma DAO_new_Signals:
  "DAO_new SignalDAO_TABLE SignalDAO_SCHEMA uid
     [(''job_id'', j), (''name'', n), (''datetime'', t), (''action'', a), (''confidence'', c)]
   = Insert ''Signals''
       [(''job_id'', j), (''name'', n), (''datetime'', t), (''action'', a), (''confidence'', c),
        (''id'', PyStr uid)]"
  by (simp add: DAO_new_def SignalDAO_TABLE_def SignalDAO_SCHEMA_def STANDARD_ID_def)

lemma DAO_new_StoredValues:
  "DAO_new StoredValuesDAO_TABLE StoredValuesDAO_SCHEMA uid
     [(''job_id'', j), (''datetime'', t), (''key'', k), (''value'', v)]
   = Insert ''StoredValues''
       [(''job_id'', j), (''datetime'', t), (''key'', k), (''value'', v), (''id'', PyStr uid)]"
  by (simp add: DAO_new_def StoredValuesDAO_TABLE_def StoredValuesDAO_SCHEMA_def STANDARD_ID_def)

lemma valid_action: "PyStr BUY \<in> set [PyStr HOLD, PyStr SELL, PyStr BUY]"
  by simp

text \<open>
  C1. A confidence of 2 is outside (0, 1), yet \<open>Signal.set\<close> raises nothing: it sets
  the Signal and appends a row with confidence 2. The test \<open>0 >= confidence >= 1\<close>
  holds of no number.
\<close>

theorem Signal_set_accepts_confidence_outside_range:
  "Signal_set ts uid (PyStr BUY) (PyInt 2) (s, db)
   = (None,
      s\<lparr>signal_previous_action := PyStr BUY, signal_action := PyStr BUY,
        signal_confidence := PyInt 2\<rparr>,
      db @ [Insert ''Signals''
              [(''job_id'', PyStr (signal_job_id s)), (''name'', PyStr (signal_name s)),
               (''datetime'', PyStr ts), (''action'', PyStr BUY), (''confidence'', PyInt 2),
               (''id'', PyStr uid)]])"
  by (simp add: Signal_set_def DAO_new_Signals isinstance_float_def isinstance_int_def
      number_of_def py_round_def round_int_def Let_def)

theorem Signal_set_accepts_confidence_outside_range_witness:
  "fst (Signal_set ''20210101120001'' ''r1'' (PyStr BUY) (PyInt 2) (test_signal, [])) = None
   \<and> length (snd (snd (Signal_set ''20210101120001'' ''r1'' (PyStr BUY) (PyInt 2) (test_signal, [])))) = 1"
  using Signal_set_accepts_confidence_outside_range
    [of "''20210101120001''" "''r1''" test_signal "[]"]
  by simp

text \<open>
  What holds of \<open>Signal.set\<close>: with a valid action, a float is stored rounded to 2
  places whatever its size, and a confidence that is no number raises and changes nothing.
\<close>

lemma Signal_set_float:
  "act \<in> set [PyStr HOLD, PyStr SELL, PyStr BUY] \<Longrightarrow>
   Signal_set ts uid act (PyFloat c) (s, db)
   = (None,
      s\<lparr>signal_previous_action := act, signal_action := act,
        signal_confidence := PyFloat (round_float c 2)\<rparr>,
      db @ [Insert ''Signals''
              [(''job_id'', PyStr (signal_job_id s)), (''name'', PyStr (signal_name s)),
               (''datetime'', PyStr ts), (''action'', act),
               (''confidence'', PyFloat (round_float c 2)), (''id'', PyStr uid)]])"
  by (simp add: Signal_set_def DAO_new_Signals isinstance_float_def isinstance_int_def
      number_of_def py_round_def Let_def)

lemma Signal_set_not_a_number:
  "\<not> isinstance_float conf \<Longrightarrow> \<not> isinstance_int conf \<Longrightarrow>
   fst (Signal_set ts uid act conf (s, db)) \<noteq> None \<and> snd (Signal_set ts uid act conf (s, db)) = (s, db)"
  by (simp add: Signal_set_def Let_def)

lemma Signal_set_invalid_action:
  "act \<notin> set [PyStr HOLD, PyStr SELL, PyStr BUY] \<Longrightarrow>
   fst (Signal_set ts uid act conf (s, db)) \<noteq> None \<and> snd (Signal_set ts uid act conf (s, db)) = (s, db)"
  by (simp add: Signal_set_def Let_def)

text \<open>
  C2. Whenever \<open>set\<close> succeeds, \<open>has_changed()\<close> is false afterwards, whatever
  action the Signal had loaded: \<open>set\<close> stores the new action in
  \<open>_previous_action\<close> too.
\<close>

theorem Signal_has_changed_false_after_set:
  "fst (Signal_set ts uid act conf (s, db)) = None
   \<longrightarrow> \<not> Signal_has_changed (fst (snd (Signal_set ts uid act conf (s, db))))"
  by (simp add: Signal_set_def Signal_has_changed_def Let_def split: sum.splits)

lemma Signal_init_prior_SELL:
  "Signal_init
     [[PyStr ''r0'', PyStr ''j0'', PyStr ''20201231120000'', PyStr ''test'', PyStr SELL,
       PyStr ''0.5'']] ''j1'' ''test''
   = Inr (test_signal\<lparr>signal_action := PyStr SELL, signal_confidence := PyStr ''0.5''\<rparr>)"
  by code_simp

lemma Signal_set_BUY_after_SELL:
  "fst (Signal_set ''20210101120001'' ''r1'' (PyStr BUY) (PyFloat (1 / 2))
     (test_signal\<lparr>signal_action := PyStr SELL, signal_confidence := PyStr ''0.5''\<rparr>, [])) = None"
  by code_simp

theorem Signal_has_changed_false_after_set_witness:
  "Signal_init
     [[PyStr ''r0'', PyStr ''j0'', PyStr ''20201231120000'', PyStr ''test'', PyStr SELL,
       PyStr ''0.5'']] ''j1'' ''test''
   = Inr (test_signal\<lparr>signal_action := PyStr SELL, signal_confidence := PyStr ''0.5''\<rparr>)
   \<and> \<not> Signal_has_changed
         (fst (snd (Signal_set ''20210101120001'' ''r1'' (PyStr BUY) (PyFloat (1 / 2))
            (test_signal\<lparr>signal_action := PyStr SELL, signal_confidence := PyStr ''0.5''\<rparr>, []))))"
  using Signal_has_changed_false_after_set
    [of "''20210101120001''" "''r1''" "PyStr BUY" "PyFloat (1 / 2)"
        "test_signal\<lparr>signal_action := PyStr SELL, signal_confidence := PyStr ''0.5''\<rparr>" "[]"]
    Signal_set_BUY_after_SELL Signal_init_prior_SELL
  by simp

lemma round_float_pi: "round_float (314159 / 100000) 2 = 157 / 50"
  by code_simp

text \<open>
  C4. \<open>StoredValue.set\<close> rounds only the value it keeps in memory: the row it appends
  holds the value as given. With precision 2, storing 3.14159 keeps 3.14 in memory and
  appends a row whose value is 3.14159.
\<close>

theorem StoredValue_set_row_unrounded:
  "sv_round_dp sv = Some 2
   \<longrightarrow> StoredValue_set ts uid (PyFloat (314159 / 100000)) (sv, db)
       = (None, sv\<lparr>sv_value := PyFloat (157 / 50)\<rparr>,
          db @ [Insert ''StoredValues''
                  [(''job_id'', PyStr (sv_job_id sv)), (''datetime'', PyStr ts),
                   (''key'', PyStr (sv_key sv)), (''value'', PyFloat (314159 / 100000)),
                   (''id'', PyStr uid)]])"
  by (simp add: StoredValue_set_def StoredValue_round_def py_round_def isinstance_float_def
      DAO_new_StoredValues round_float_pi Let_def)


theorem StoredValue_set_row_unrounded_witness:
  "StoredValue_set ''20210101120001'' ''r7'' (PyFloat (314159 / 100000)) (test_stored_value, [])
   = (None, test_stored_value\<lparr>sv_value := PyFloat (157 / 50)\<rparr>,
      [Insert ''StoredValues''
         [(''job_id'', PyStr ''j1''), (''datetime'', PyStr ''20210101120001''),
          (''key'', PyStr ''x''), (''value'', PyFloat (314159 / 100000)), (''id'', PyStr ''r7'')]])"
  using StoredValue_set_row_unrounded [of test_stored_value "''20210101120001''" "''r7''" "[]"]
  by (simp add: test_stored_value_def)

lemma Job_store_value_pi:
  "Job_read_value ''x''
     (snd (Job_store_value ''20210101120001'' ''r7'' [] ''x'' (PyFloat (314159 / 100000)) test_world))
   = Inr (PyFloat (157 / 50))
   \<and> last (w_db (snd (Job_store_value ''20210101120001'' ''r7'' [] ''x''
                        (PyFloat (314159 / 100000)) test_world)))
     = Insert ''StoredValues''
         [(''job_id'', PyStr ''j1''), (''datetime'', PyStr ''20210101120001''),
          (''key'', PyStr ''x''), (''value'', PyFloat (314159 / 100000)), (''id'', PyStr ''r7'')]"
  by code_simp

section \<open>Properties of the SQL generator, continued\<close>

text \<open>
  C8. \<open>insert\<close> puts a value between double quotes as it is, a double quote inside it
  included; \<open>update\<close> alone replaces the double quotes of a value.
\<close>

theorem Database_insert_value_verbatim:
  "Database_insert table [(c, Some v)]
   = ''INSERT INTO '' @ table @ '' ('' @ c @ '') VALUES ('' @ [dq] @ v @ [dq] @ '');''"
  by (simp add: Database_insert_def VALUES_join_def)

theorem Database_insert_value_verbatim_witness:
  "Database_insert ''T'' [(''a'', Some (''x'' @ [dq] @ ''y''))]
   = ''INSERT INTO T (a) VALUES ('' @ [dq] @ ''x'' @ [dq] @ ''y'' @ [dq] @ '');''"
  using Database_insert_value_verbatim [of "''T''" "''a''" "''x'' @ [dq] @ ''y''"]
  by simp

lemma clean_string_no_double_quote:
  "\<exists>body. clean_string v = [dq] @ body @ [dq] \<and> dq \<notin> set body"
proof -
  have "dq \<notin> set (py_replace dq sq s)" for s
    by (auto simp: py_replace_def dq_def sq_def)
  then show ?thesis
    by (auto simp: clean_string_def Let_def)
qed

lemma Database_update_value_cleaned:
  "Database_update table [(c, v)] NoCondition
   = ''UPDATE '' @ table @ '' SET '' @ [dq] @ c @ [dq] @ ''='' @ clean_string v @ '';''"
  by (simp add: Database_update_def generate_columns_def generate_condition_def VALUES_join_def)

text \<open>
  The statement \<open>Signal._load\<close> has rendered, and the order it asks for on three rows:
  the row with no timestamp comes first, before the most recent timestamped one.
\<close>

theorem null_row_is_returned_first:
  "Database_select ''Signals'' NoColumns (DictCondition [(''name'', Single (Some ''test''))])
     (Some ''datetime'') False
   = ''SELECT * FROM Signals WHERE name = '' @ [dq] @ ''test'' @ [dq]
       @ '' ORDER BY CASE WHEN datetime IS null THEN '' @ [sq] @ ''ZZZZZZZZZZZZZZ'' @ [sq]
       @ '' else datetime END DESC;''
   \<and> order_by_desc snd three_rows
     = [(''undated'', None), (''new'', Some ''20210101120000''), (''old'', Some ''20200101120000'')]"
  by code_simp

lemma sorted_key_last:
  "sorted (map k ys) \<Longrightarrow> y \<in> set ys \<Longrightarrow> k y \<le> k (last ys)"
proof (induction ys)
  case Nil
  then show ?case by simp
next
  case (Cons a ys)
  show ?case
  proof (cases "ys = []")
    case True
    with Cons.prems show ?thesis by simp
  next
    case False
    then have l: "last ys \<in> set ys" by simp
    from Cons.prems have s: "sorted (map k ys)" and a: "\<forall>z\<in>set ys. k a \<le> k z" by simp_all
    show ?thesis
    proof (cases "y = a")
      case True
      with a l False show ?thesis by simp
    next
      case False
      with Cons.prems have "y \<in> set ys" by simp
      with Cons.IH s \<open>ys \<noteq> []\<close> show ?thesis by simp
    qed
  qed
qed

lemma order_by_desc_hd_greatest:
  assumes "r \<in> set rows"
  shows "sortby_key (col r) \<le> sortby_key (col (hd (order_by_desc col rows)))"
proof -
  let ?k = "\<lambda>r. sortby_key (col r)"
  let ?ys = "sort_key ?k (rev rows)"
  have ne: "?ys \<noteq> []" using assms by (metis empty_iff set_empty set_sort set_rev)
  have "?k r \<le> ?k (last ?ys)"
    by (rule sorted_key_last) (use assms in simp_all)
  then show ?thesis
    using ne by (simp add: order_by_desc_def hd_rev)
qed

text \<open>
  C6, as the code has it. A select with a sortby column ends in
  \<open>ORDER BY CASE WHEN column IS null THEN 'ZZZZZZZZZZZZZZ' else column END DESC\<close>.
  That order returns the same rows, by descending key, the key of a null being the
  sentinel, and the first row has the greatest key. Where some row is null and every text
  is below the sentinel, as every timestamp of digits is, the first row is a null one.
  Where no row is null, the first row is one with the greatest text, the most recent.
\<close>

theorem select_sortby_orders_null_rows_first:
  "Database_select table cols cond (Some sortby) is_distinct
     = (if is_distinct then ''SELECT DISTINCT '' else ''SELECT '') @ generate_columns cols
         @ '' FROM '' @ table @ generate_condition cond @ '' ORDER BY CASE WHEN '' @ sortby
         @ '' IS null THEN '' @ [sq] @ ''ZZZZZZZZZZZZZZ'' @ [sq] @ '' else '' @ sortby
         @ '' END DESC;''
   \<and> set (order_by_desc col rows) = set rows
   \<and> length (order_by_desc col rows) = length rows
   \<and> sorted (rev (map (\<lambda>r. sortby_key (col r)) (order_by_desc col rows)))
   \<and> (\<forall>r\<in>set rows. sortby_key (col r) \<le> sortby_key (col (hd (order_by_desc col rows))))
   \<and> ((\<exists>r\<in>set rows. col r = None)
        \<and> (\<forall>r\<in>set rows. \<forall>s. col r = Some s \<longrightarrow> s < SORTBY_SENTINEL)
        \<longrightarrow> col (hd (order_by_desc col rows)) = None)
   \<and> (rows \<noteq> [] \<and> (\<forall>r\<in>set rows. col r \<noteq> None)
        \<longrightarrow> (\<exists>s. col (hd (order_by_desc col rows)) = Some s
               \<and> (\<forall>r\<in>set rows. \<forall>t. col r = Some t \<longrightarrow> t \<le> s)))"
proof -
  have sql: "Database_select table cols cond (Some sortby) is_distinct
     = (if is_distinct then ''SELECT DISTINCT '' else ''SELECT '') @ generate_columns cols
         @ '' FROM '' @ table @ generate_condition cond @ '' ORDER BY CASE WHEN '' @ sortby
         @ '' IS null THEN '' @ [sq] @ ''ZZZZZZZZZZZZZZ'' @ [sq] @ '' else '' @ sortby
         @ '' END DESC;''"
    by (simp add: Database_select_def sortby_suffix_def SORTBY_SENTINEL_def)
  have perm: "set (order_by_desc col rows) = set rows"
    "length (order_by_desc col rows) = length rows"
    by (simp_all add: order_by_desc_def)
  have desc: "sorted (rev (map (\<lambda>r. sortby_key (col r)) (order_by_desc col rows)))"
    by (simp add: order_by_desc_def rev_map)
  have first: "\<forall>r\<in>set rows. sortby_key (col r) \<le> sortby_key (col (hd (order_by_desc col rows)))"
    by (intro ballI order_by_desc_hd_greatest)
  have nulls: "col (hd (order_by_desc col rows)) = None"
    if n: "\<exists>r\<in>set rows. col r = None"
      and b: "\<forall>r\<in>set rows. \<forall>s. col r = Some s \<longrightarrow> s < SORTBY_SENTINEL"
  proof (rule ccontr)
    assume "col (hd (order_by_desc col rows)) \<noteq> None"
    then obtain s where s: "col (hd (order_by_desc col rows)) = Some s" by auto
    from n obtain r where r: "r \<in> set rows" "col r = None" by auto
    then have "rows \<noteq> []" by auto
    then have "order_by_desc col rows \<noteq> []" using perm(2) by auto
    then have "hd (order_by_desc col rows) \<in> set rows" using perm(1) hd_in_set by blast
    with b s have "s < SORTBY_SENTINEL" by blast
    moreover have "SORTBY_SENTINEL \<le> s"
      using first r s by (auto simp: sortby_key_def)
    ultimately show False by simp
  qed
  have dated: "\<exists>s. col (hd (order_by_desc col rows)) = Some s
      \<and> (\<forall>r\<in>set rows. \<forall>t. col r = Some t \<longrightarrow> t \<le> s)"
    if ne: "rows \<noteq> []" and d: "\<forall>r\<in>set rows. col r \<noteq> None"
  proof -
    from ne have "order_by_desc col rows \<noteq> []" using perm(2) by auto
    then have h: "hd (order_by_desc col rows) \<in> set rows" using perm(1) hd_in_set by blast
    with d obtain s where s: "col (hd (order_by_desc col rows)) = Some s" by auto
    have "t \<le> s" if "r \<in> set rows" "col r = Some t" for r t
      using first that s by (auto simp: sortby_key_def)
    with s show ?thesis by blast
  qed
  show ?thesis
    using sql perm desc first nulls dated by blast
qed

lemma three_rows_below_sentinel:
  "\<forall>r\<in>set three_rows. \<forall>s. snd r = Some s \<longrightarrow> s < SORTBY_SENTINEL"
proof -
  have "''20200101120000'' < SORTBY_SENTINEL" "''20210101120000'' < SORTBY_SENTINEL"
    by code_simp+
  then show ?thesis by (simp add: three_rows_def)
qed

theorem select_sortby_orders_null_rows_first_witness:
  "snd (hd (order_by_desc snd three_rows)) = None
   \<and> (''new'', Some ''20210101120000'') \<in> set (order_by_desc snd three_rows)
   \<and> (\<exists>s. snd (hd (order_by_desc snd two_rows)) = Some s \<and> ''20210101120000'' \<le> s)"
proof -
  have n: "\<exists>r\<in>set three_rows. snd r = None" by (simp add: three_rows_def)
  have "snd (hd (order_by_desc snd three_rows)) = None"
    using select_sortby_orders_null_rows_first [of _ _ _ _ _ snd three_rows]
      n three_rows_below_sentinel by blast
  moreover have "(''new'', Some ''20210101120000'') \<in> set (order_by_desc snd three_rows)"
    using select_sortby_orders_null_rows_first [of _ _ _ _ _ snd three_rows]
    by (simp add: three_rows_def)
  moreover have "\<exists>s. snd (hd (order_by_desc snd two_rows)) = Some s \<and> ''20210101120000'' \<le> s"
  proof -
    have ne: "two_rows \<noteq> []" and d: "\<forall>r\<in>set two_rows. snd r \<noteq> None"
      and m: "(''new'', Some ''20210101120000'') \<in> set two_rows"
      by (simp_all add: two_rows_def)
    from select_sortby_orders_null_rows_first [of _ _ _ _ _ snd two_rows] ne d
    obtain s where s: "snd (hd (order_by_desc snd two_rows)) = Some s"
      and g: "\<forall>r\<in>set two_rows. \<forall>t. snd r = Some t \<longrightarrow> t \<le> s"
      by blast
    from g m have "''20210101120000'' \<le> s" by fastforce
    with s show ?thesis by blast
  qed
  ultimately show ?thesis by simp
qed

section \<open>Properties of the Job\<close>

lemma upper_terminal: "upper SUCCESS = SUCCESS" "upper FAILED = FAILED"
  by code_simp+

lemma terminal_valid: "SUCCESS \<in> set VALID" "FAILED \<in> set VALID"
  by (simp_all add: VALID_def)

lemma Job_set_status_accepted:
  "upper status \<in> set VALID \<Longrightarrow>
   Job_set_status now status w
   = (None,
      w\<lparr>w_job := (w_job w)\<lparr>job_status := PyStr status\<rparr>,
        w_db := w_db w @
          [Update ''Jobs''
             [(''status'', PyStr status),
              (''seconds_elapsed'', PyFloat (now - job_run_datetime (w_job w)))]
             (Some [(''id'', PyStr (job_id (w_job w)))])]\<rparr>)"
  by (simp add: Job_set_status_def JobStatus_is_valid_def DAO_update_def JobDAO_TABLE_def
      STANDARD_ID_def Let_def)

lemma Job_set_status_rejected:
  "upper status \<notin> set VALID \<Longrightarrow>
   Job_set_status now status w
   = (Some (PyException ''{} is an invalid status!''),
      w\<lparr>w_job := (w_job w)\<lparr>job_status := PyStr status\<rparr>\<rparr>)"
  by (simp add: Job_set_status_def JobStatus_is_valid_def Let_def)

text \<open>
  The lower-case word \<open>success\<close> is not one of the five status strings, yet
  \<open>set_status\<close> accepts it and writes it to the job's row; and with a run timestamp
  ahead of the clock the elapsed seconds written are negative.
\<close>

theorem set_status_accepts_lower_case:
  "''success'' \<notin> set VALID
   \<and> Job_set_status 130 ''success'' test_world
     = (None,
        test_world
          \<lparr>w_job := test_job\<lparr>job_status := PyStr ''success''\<rparr>,
           w_db := w_db test_world @
             [Update ''Jobs'' [(''status'', PyStr ''success''), (''seconds_elapsed'', PyFloat 30)]
                (Some [(''id'', PyStr ''j1'')])]\<rparr>)
   \<and> w_db (snd (Job_set_status 40 SUCCESS test_world))
     = w_db test_world @
         [Update ''Jobs'' [(''status'', PyStr SUCCESS), (''seconds_elapsed'', PyFloat (- 60))]
            (Some [(''id'', PyStr ''j1'')])]"
  by code_simp

text \<open>
  C3, as the code has it. A status string whose upper-case form is one of the five is
  accepted: the Job updates its own row with exactly that string and with the seconds
  from the run timestamp to the clock's reading, which are not negative when the run
  timestamp is not ahead of the clock. A string of ASCII characters whose upper-case form
  is none of the five makes \<open>set_status\<close> raise, and nothing is written.
\<close>

theorem set_status_validates_upper_case_form:
  "(upper status \<in> set VALID \<longrightarrow>
      fst (Job_set_status now status w) = None
      \<and> w_db (snd (Job_set_status now status w))
        = w_db w @
            [Update ''Jobs''
               [(''status'', PyStr status),
                (''seconds_elapsed'', PyFloat (now - job_run_datetime (w_job w)))]
               (Some [(''id'', PyStr (job_id (w_job w)))])]
      \<and> (job_run_datetime (w_job w) \<le> now \<longrightarrow> 0 \<le> now - job_run_datetime (w_job w)))
   \<and> (list_all is_ascii status \<and> upper status \<notin> set VALID \<longrightarrow>
        fst (Job_set_status now status w) = Some (PyException ''{} is an invalid status!'')
        \<and> w_db (snd (Job_set_status now status w)) = w_db w)"
  by (simp add: Job_set_status_accepted Job_set_status_rejected)

lemma upper_examples:
  "upper ''success'' \<in> set VALID" "upper ''BOGUS'' \<notin> set VALID" "list_all is_ascii ''BOGUS''"
  by code_simp+

theorem set_status_validates_upper_case_form_witness:
  "fst (Job_set_status 130 ''success'' test_world) = None
   \<and> w_db (snd (Job_set_status 130 ''success'' test_world))
     = w_db test_world @
         [Update ''Jobs'' [(''status'', PyStr ''success''), (''seconds_elapsed'', PyFloat 30)]
            (Some [(''id'', PyStr ''j1'')])]
   \<and> fst (Job_set_status 130 ''BOGUS'' test_world) = Some (PyException ''{} is an invalid status!'')
   \<and> w_db (snd (Job_set_status 130 ''BOGUS'' test_world)) = w_db test_world"
  using set_status_validates_upper_case_form [of "''success''" 130 test_world]
    set_status_validates_upper_case_form [of "''BOGUS''" 130 test_world]
    upper_examples
  by (simp add: test_world_def test_job_def)

text \<open>
  The word \<open>success\<close> is outside the valid set, yet validation does not raise on it:
  the status is overwritten and the job's row is written.
\<close>

theorem set_status_writes_on_lower_case:
  "''success'' \<notin> set VALID
   \<and> fst (Job_set_status 130 ''success'' test_world) = None
   \<and> job_status (w_job (snd (Job_set_status 130 ''success'' test_world))) = PyStr ''success''
   \<and> w_db (snd (Job_set_status 130 ''success'' test_world))
     = w_db test_world @
         [Update ''Jobs'' [(''status'', PyStr ''success''), (''seconds_elapsed'', PyFloat 30)]
            (Some [(''id'', PyStr ''j1'')])]"
  by code_simp

text \<open>
  C10, as the code has it. \<open>set_status\<close> overwrites the Job's status with the string
  given, whatever the string, before it validates. When validation then raises, the call
  leaves the Job with that string as its status and everything else, the store included, as
  it was. Validation raises for every string of ASCII characters whose upper-case form is
  none of the five, and for no string whose upper-case form is one of them.
\<close>

theorem set_status_overwrites_before_validation:
  "job_status (w_job (snd (Job_set_status now status w))) = PyStr status
   \<and> (fst (Job_set_status now status w) \<noteq> None \<longrightarrow>
        snd (Job_set_status now status w) = w\<lparr>w_job := (w_job w)\<lparr>job_status := PyStr status\<rparr>\<rparr>
        \<and> w_db (snd (Job_set_status now status w)) = w_db w)
   \<and> (list_all is_ascii status \<and> upper status \<notin> set VALID \<longrightarrow>
        fst (Job_set_status now status w) \<noteq> None)
   \<and> (upper status \<in> set VALID \<longrightarrow> fst (Job_set_status now status w) = None)"
  by (cases "upper status \<in> set VALID")
     (simp_all add: Job_set_status_accepted Job_set_status_rejected)

theorem set_status_overwrites_before_validation_witness:
  "fst (Job_set_status 130 ''BOGUS'' test_world) \<noteq> None
   \<and> job_status (w_job (snd (Job_set_status 130 ''BOGUS'' test_world))) = PyStr ''BOGUS''
   \<and> job_status (w_job test_world) = PyStr INITIATED
   \<and> w_db (snd (Job_set_status 130 ''BOGUS'' test_world)) = w_db test_world
   \<and> fst (Job_set_status 130 ''success'' test_world) = None"
  using set_status_overwrites_before_validation [of 130 "''BOGUS''" test_world]
    set_status_overwrites_before_validation [of 130 "''success''" test_world] upper_examples
  by (simp add: test_world_def test_job_def)

text \<open>
  C5. With an error captured whose text is empty, \<open>finish_and_return_code\<close> takes the
  branch of success: status \<open>SUCCESS\<close>, the success code, and no failure notice.
\<close>

theorem finish_with_empty_error_reports_success:
  "job_error (w_job w) = Some [] \<longrightarrow>
     fst (Job_finish_and_return_code now force_email w) = Inr SUCCESS_CODE
     \<and> job_status (w_job (snd (Job_finish_and_return_code now force_email w))) = PyStr SUCCESS
     \<and> w_db (snd (Job_finish_and_return_code now force_email w))
       = w_db w @
           [Update ''Jobs''
              [(''status'', PyStr SUCCESS),
               (''seconds_elapsed'', PyFloat (now - job_run_datetime (w_job w)))]
              (Some [(''id'', PyStr (job_id (w_job w)))])]
     \<and> w_outbox (snd (Job_finish_and_return_code now force_email w))
       = w_outbox w @
           (if Signal_has_changed (job_signal (w_job w)) \<or> force_email
            then [Signal_change (job_email (w_job w)) (signal_name (job_signal (w_job w)))]
            else [])"
  by (simp add: Job_finish_and_return_code_def truthy_def Job_set_status_accepted
      upper_terminal terminal_valid)

theorem finish_with_empty_error_reports_success_witness:
  "fst (Job_finish_and_return_code 130 False (test_world\<lparr>w_job := test_job\<lparr>job_error := Some []\<rparr>\<rparr>))
     = Inr 0
   \<and> w_outbox (snd (Job_finish_and_return_code 130 False
        (test_world\<lparr>w_job := test_job\<lparr>job_error := Some []\<rparr>\<rparr>))) = []"
  using finish_with_empty_error_reports_success
    [of "test_world\<lparr>w_job := test_job\<lparr>job_error := Some []\<rparr>\<rparr>" 130 False]
  by (simp add: test_world_def test_job_def test_signal_def SUCCESS_CODE_def Signal_has_changed_def)

text \<open>
  C7. A calculation function that raises an exception with no message: \<open>do_work\<close>
  stores the empty text as the error, and \<open>finish_and_return_code\<close> then returns the
  success code and writes status \<open>SUCCESS\<close>.
\<close>

theorem do_work_then_finish_on_empty_message:
  "job_error (w_job (Job_do_work raises_without_message w)) = Some []
   \<and> fst (Job_finish_and_return_code now force_email (Job_do_work raises_without_message w))
     = Inr SUCCESS_CODE
   \<and> job_status (w_job (snd (Job_finish_and_return_code now force_email
        (Job_do_work raises_without_message w)))) = PyStr SUCCESS
   \<and> w_db (snd (Job_finish_and_return_code now force_email (Job_do_work raises_without_message w)))
     = w_db w @
         [Update ''Jobs''
            [(''status'', PyStr SUCCESS),
             (''seconds_elapsed'', PyFloat (now - job_run_datetime (w_job w)))]
            (Some [(''id'', PyStr (job_id (w_job w)))])]"
  by (simp add: Job_do_work_def raises_without_message_def Job_finish_and_return_code_def
      truthy_def Job_set_status_accepted upper_terminal terminal_valid)

theorem do_work_then_finish_on_empty_message_witness:
  "fst (Job_finish_and_return_code 130 False (Job_do_work raises_without_message test_world)) = Inr 0
   \<and> job_status (w_job (snd (Job_finish_and_return_code 130 False
        (Job_do_work raises_without_message test_world)))) = PyStr ''SUCCESS''"
  using do_work_then_finish_on_empty_message [of test_world 130 False]
  by (simp add: SUCCESS_CODE_def SUCCESS_def)

text \<open>What holds: an exception with a message ends in failure.\<close>

lemma do_work_then_finish_on_message:
  "msg \<noteq> [] \<Longrightarrow>
   fst (Job_finish_and_return_code now force_email
          (Job_do_work (\<lambda>w. (Some (PyException msg), f w)) w)) = Inr FAIL_CODE
   \<and> job_status (w_job (snd (Job_finish_and_return_code now force_email
          (Job_do_work (\<lambda>w. (Some (PyException msg), f w)) w)))) = PyStr FAILED
   \<and> job_error (w_job (snd (Job_finish_and_return_code now force_email
          (Job_do_work (\<lambda>w. (Some (PyException msg), f w)) w)))) = Some msg"
  by (simp add: Job_do_work_def Job_finish_and_return_code_def truthy_def
      Job_set_status_accepted upper_terminal terminal_valid)

end
